theory Spec2Isabelle
  imports Complex_Main
begin

section \<open>The recipe engine of x-Music Bar (lib/recipeEngine)\<close>

text \<open>
  The engine maps a five-axis SABIT vector (Sweetness, Acidity, Bitterness, Intensity,
  Texture) to a total volume and an allocation of that volume over a fixed catalog of
  fifteen ingredients.

  Numbers: the source computes with JavaScript numbers. They are modelled as \<open>real\<close>,
  so \<open>Math.exp\<close> is \<open>exp\<close>, \<open>Math.max\<close> is \<open>max\<close> and sums are exact; rounding
  error, overflow to \<open>Infinity\<close> and \<open>NaN\<close> are outside the model.

  Names: the catalog's display names are Japanese text in the source. The engine only
  copies them, so they are written here in ASCII transliteration, one distinct name per
  entry, in the order of the source.
\<close>

subsection \<open>Data model\<close>

text \<open>\<open>interface Ingredient { name; s; a; b; i; t }\<close>\<close>

record Ingredient =
  ing_name :: string
  ing_s :: real
  ing_a :: real
  ing_b :: real
  ing_i :: real
  ing_t :: real

text \<open>\<open>interface SABITInput { s; a; b; i; t }\<close>\<close>

record SABITInput =
  in_s :: real
  in_a :: real
  in_b :: real
  in_i :: real
  in_t :: real

text \<open>The argument of \<open>vectorsToSABIT\<close>: \<open>{ S; A; B; I; T }\<close>, display domain.\<close>

record VectorValues =
  vec_S :: real
  vec_A :: real
  vec_B :: real
  vec_I :: real
  vec_T :: real

text \<open>\<open>interface RecipeItem { name: string; ml: string }\<close>\<close>

record RecipeItem =
  name :: string
  ml :: string

text \<open>\<open>interface RecipeResult { totalVolume: string; recipe: RecipeItem[] }\<close>\<close>

record RecipeResult =
  totalVolume :: string
  recipe :: "RecipeItem list"

text \<open>The object literal \<open>{ name, score }\<close> built by the first \<open>map\<close>.\<close>

record ScoreEntry =
  sc_name :: string
  score :: real

text \<open>The object literal \<open>{ name, ml }\<close> with a numeric \<open>ml\<close>, before formatting.\<close>

record Pour =
  pour_name :: string
  pour_ml :: real

subsection \<open>The catalog\<close>

definition INGREDIENTS :: "Ingredient list" where
  "INGREDIENTS = [
     \<lparr>ing_name = ''Gin (Tanqueray)'', ing_s = 0.00, ing_a = 0.00, ing_b = 0.15, ing_i = 0.95, ing_t = 0.00\<rparr>,
     \<lparr>ing_name = ''Vodka'', ing_s = 0.00, ing_a = 0.00, ing_b = 0.00, ing_i = 0.80, ing_t = 0.00\<rparr>,
     \<lparr>ing_name = ''Whisky (Jameson)'', ing_s = 0.05, ing_a = 0.00, ing_b = 0.20, ing_i = 0.80, ing_t = 0.00\<rparr>,
     \<lparr>ing_name = ''White rum'', ing_s = 0.08, ing_a = 0.00, ing_b = 0.00, ing_i = 0.80, ing_t = 0.00\<rparr>,
     \<lparr>ing_name = ''Campari'', ing_s = 0.31, ing_a = 0.00, ing_b = 1.00, ing_i = 0.50, ing_t = 0.00\<rparr>,
     \<lparr>ing_name = ''Cinzano Rosso'', ing_s = 0.19, ing_a = 0.15, ing_b = 0.40, ing_i = 0.30, ing_t = 0.00\<rparr>,
     \<lparr>ing_name = ''Kahlua'', ing_s = 0.55, ing_a = 0.05, ing_b = 0.45, ing_i = 0.40, ing_t = 0.00\<rparr>,
     \<lparr>ing_name = ''Cointreau'', ing_s = 0.31, ing_a = 0.10, ing_b = 0.05, ing_i = 0.80, ing_t = 0.00\<rparr>,
     \<lparr>ing_name = ''Lemon juice'', ing_s = 0.05, ing_a = 0.95, ing_b = 0.05, ing_i = 0.00, ing_t = 0.00\<rparr>,
     \<lparr>ing_name = ''Lime juice'', ing_s = 0.05, ing_a = 1.00, ing_b = 0.05, ing_i = 0.00, ing_t = 0.00\<rparr>,
     \<lparr>ing_name = ''Simple syrup'', ing_s = 1.00, ing_a = 0.00, ing_b = 0.00, ing_i = 0.00, ing_t = 0.10\<rparr>,
     \<lparr>ing_name = ''Grenadine'', ing_s = 0.90, ing_a = 0.20, ing_b = 0.00, ing_i = 0.00, ing_t = 0.20\<rparr>,
     \<lparr>ing_name = ''Tonic water'', ing_s = 0.12, ing_a = 0.20, ing_b = 0.45, ing_i = 0.00, ing_t = 0.80\<rparr>,
     \<lparr>ing_name = ''Ginger ale'', ing_s = 0.13, ing_a = 0.20, ing_b = 0.00, ing_i = 0.00, ing_t = 0.90\<rparr>,
     \<lparr>ing_name = ''Soda (strong)'', ing_s = 0.00, ing_a = 0.00, ing_b = 0.00, ing_i = 0.00, ing_t = 1.00\<rparr>
   ]"

subsection \<open>Library functions of the host language\<close>

text \<open>
  \<open>Number.prototype.toFixed(1)\<close>: with \<open>x\<close> replaced by its absolute value and a
  leading minus sign when \<open>x < 0\<close>, take the integer \<open>n\<close> for which \<open>n / 10 - x\<close> is
  closest to zero, the larger one of two; print the digits of \<open>n\<close> with a point before
  the last one. (From \<open>10^21\<close> on, the host language prints the number in exponent
  notation instead; that case is not modelled, and no concrete string below is near it.)
\<close>

definition digit_char :: "nat \<Rightarrow> char" where
  "digit_char d = ''0123456789'' ! d"

fun digits :: "nat \<Rightarrow> string" where
  "digits n = (if n < 10 then [digit_char n] else digits (n div 10) @ [digit_char (n mod 10)])"

declare digits.simps [simp del]

definition tenths :: "real \<Rightarrow> nat" where
  "tenths x = nat \<lfloor>x * 10 + 1 / 2\<rfloor>"

definition toFixed1 :: "real \<Rightarrow> string" where
  "toFixed1 x =
     (let s = (if x < 0 then ''-'' else '''');
          n = tenths \<bar>x\<bar>
      in s @ digits (n div 10) @ ''.'' @ [digit_char (n mod 10)])"

text \<open>
  The number that the string \<open>toFixed1 x\<close> denotes: the same \<open>n\<close>, as tenths, with
  the same sign.
\<close>

definition fixed1_value :: "real \<Rightarrow> real" where
  "fixed1_value x = (if x < 0 then - real (tenths \<bar>x\<bar>) / 10 else real (tenths \<bar>x\<bar>) / 10)"

text \<open>
  \<open>Array.prototype.sort(cmp)\<close> is stable: \<open>a\<close> stays before \<open>b\<close> unless
  \<open>cmp(a, b) > 0\<close>. Modelled as insertion from the right end of the array.
\<close>

fun insert_cmp :: "('a \<Rightarrow> 'a \<Rightarrow> real) \<Rightarrow> 'a \<Rightarrow> 'a list \<Rightarrow> 'a list" where
  "insert_cmp cmp x [] = [x]"
| "insert_cmp cmp x (y # ys) =
     (if cmp x y \<le> 0 then x # y # ys else y # insert_cmp cmp x ys)"

definition sort_cmp :: "('a \<Rightarrow> 'a \<Rightarrow> real) \<Rightarrow> 'a list \<Rightarrow> 'a list" where
  "sort_cmp cmp xs = foldr (insert_cmp cmp) xs []"

subsection \<open>calculateDynamicRecipe\<close>

text \<open>The local constants of the function, in the order of the source.\<close>

definition calc_totalVolume :: "SABITInput \<Rightarrow> real" where
  "calc_totalVolume input = 60 + (90 * in_t input)"

definition calc_scores :: "SABITInput \<Rightarrow> ScoreEntry list" where
  "calc_scores input =
     map (\<lambda>ing.
           let dotProduct =
                 (in_s input * ing_s ing) +
                 (in_a input * ing_a ing) +
                 (in_b input * ing_b ing) +
                 (in_i input * ing_i ing) +
                 (in_t input * ing_t ing)
           in \<lparr>sc_name = ing_name ing, score = max 0 dotProduct\<rparr>)
         INGREDIENTS"

definition sigma :: real where
  "sigma = 12.0"

definition calc_expScores :: "SABITInput \<Rightarrow> real list" where
  "calc_expScores input = map (\<lambda>s. exp (score s * sigma)) (calc_scores input)"

definition calc_sumExpScores :: "SABITInput \<Rightarrow> real" where
  "calc_sumExpScores input = foldl (\<lambda>acc val. acc + val) 0 (calc_expScores input)"

text \<open>
  The \<open>map((s, i) => ...)\<close> stage, before \<open>filter\<close> and \<open>sort\<close>. The index \<open>i\<close>
  runs over the positions of \<open>scores\<close>, and \<open>expScores\<close> has the same length, so
  \<open>expScores[i]\<close> is always in range.
\<close>

definition calc_allocated :: "SABITInput \<Rightarrow> Pour list" where
  "calc_allocated input =
     map (\<lambda>(s, i).
           \<lparr>pour_name = sc_name s,
            pour_ml = (calc_expScores input ! i / calc_sumExpScores input) * calc_totalVolume input\<rparr>)
         (zip (calc_scores input) [0 ..< length (calc_scores input)])"

definition calc_recipe :: "SABITInput \<Rightarrow> Pour list" where
  "calc_recipe input =
     sort_cmp (\<lambda>a b. pour_ml b - pour_ml a)
       (filter (\<lambda>item. pour_ml item \<ge> 1.0) (calc_allocated input))"

definition calculateDynamicRecipe :: "SABITInput \<Rightarrow> RecipeResult" where
  "calculateDynamicRecipe input =
     \<lparr>totalVolume = toFixed1 (calc_totalVolume input),
      recipe = map (\<lambda>r. \<lparr>name = pour_name r, ml = toFixed1 (pour_ml r)\<rparr>) (calc_recipe input)\<rparr>"

subsection \<open>vectorsToSABIT\<close>

definition vectorsToSABIT :: "VectorValues \<Rightarrow> SABITInput" where
  "vectorsToSABIT vectors =
     \<lparr>in_s = vec_S vectors / 100,
      in_a = vec_A vectors / 100,
      in_b = vec_B vectors / 100,
      in_i = vec_I vectors / 100,
      in_t = vec_T vectors / 100\<rparr>"

subsection \<open>The specification's wording, for comparison\<close>

text \<open>The five-component dot product of an input and a characteristic vector.\<close>

definition spec_dot :: "SABITInput \<Rightarrow> Ingredient \<Rightarrow> real" where
  "spec_dot input c =
     in_s input * ing_s c + in_a input * ing_a c + in_b input * ing_b c
       + in_i input * ing_i c + in_t input * ing_t c"

text \<open>The softmax weight \<open>exp(max(0, dot) * 12.0)\<close> of a catalog entry.\<close>

definition spec_weight :: "SABITInput \<Rightarrow> Ingredient \<Rightarrow> real" where
  "spec_weight input c = exp (max 0 (spec_dot input c) * 12.0)"

text \<open>Component-wise clamping to \<open>[0,1]\<close>.\<close>

definition spec_clamp01 :: "real \<Rightarrow> real" where
  "spec_clamp01 x = max 0 (min 1 x)"

definition spec_clampInput :: "SABITInput \<Rightarrow> SABITInput" where
  "spec_clampInput input =
     \<lparr>in_s = spec_clamp01 (in_s input),
      in_a = spec_clamp01 (in_a input),
      in_b = spec_clamp01 (in_b input),
      in_i = spec_clamp01 (in_i input),
      in_t = spec_clamp01 (in_t input)\<rparr>"

section \<open>Properties\<close>

subsection \<open>The stages of the function in closed form\<close>

lemma length_INGREDIENTS: "length INGREDIENTS = 15"
  by (simp add: INGREDIENTS_def)

lemma distinct_names: "distinct (map ing_name INGREDIENTS)"
  by (simp add: INGREDIENTS_def)

lemma foldl_plus_sum_list: "foldl (\<lambda>acc val. acc + val) a xs = (a::real) + sum_list xs"
  by (induction xs arbitrary: a) simp_all

lemma map_zip_index:
  "length ys = length xs \<Longrightarrow>
     map (\<lambda>(s, i). g s (ys ! i)) (zip xs [0 ..< length xs]) = map (\<lambda>(s, e). g s e) (zip xs ys)"
  by (rule nth_equalityI) simp_all

lemma scores_eq:
  "calc_scores input
     = map (\<lambda>c. \<lparr>sc_name = ing_name c, score = max 0 (spec_dot input c)\<rparr>) INGREDIENTS"
  by (simp add: calc_scores_def spec_dot_def Let_def)

lemma expScores_eq: "calc_expScores input = map (spec_weight input) INGREDIENTS"
  by (simp add: calc_expScores_def scores_eq spec_weight_def sigma_def comp_def)

lemma sumExpScores_eq: "calc_sumExpScores input = sum_list (map (spec_weight input) INGREDIENTS)"
  by (simp add: calc_sumExpScores_def expScores_eq foldl_plus_sum_list)

lemma allocated_eq:
  "calc_allocated input =
     map (\<lambda>c. \<lparr>pour_name = ing_name c,
               pour_ml = spec_weight input c / calc_sumExpScores input * calc_totalVolume input\<rparr>)
       INGREDIENTS"
proof -
  let ?mk = "\<lambda>s e. \<lparr>pour_name = sc_name s,
                pour_ml = e / calc_sumExpScores input * calc_totalVolume input\<rparr>"
  have len: "length (calc_expScores input) = length (calc_scores input)"
    by (simp add: calc_expScores_def)
  have "calc_allocated input
          = map (\<lambda>(s, e). ?mk s e) (zip (calc_scores input) (calc_expScores input))"
    unfolding calc_allocated_def using map_zip_index [OF len, of ?mk] by simp
  also have "\<dots> = map (\<lambda>c. \<lparr>pour_name = ing_name c,
               pour_ml = spec_weight input c / calc_sumExpScores input * calc_totalVolume input\<rparr>)
       INGREDIENTS"
    by (simp add: scores_eq expScores_eq zip_map_map zip_same_conv_map comp_def)
  finally show ?thesis .
qed

lemma allocated_names: "map pour_name (calc_allocated input) = map ing_name INGREDIENTS"
  by (simp add: allocated_eq comp_def)

subsection \<open>The softmax denominator\<close>

lemma spec_weight_ge_1: "1 \<le> spec_weight input c"
  by (simp add: spec_weight_def)

lemma sum_list_ge_length:
  "(\<And>x. x \<in> set xs \<Longrightarrow> 1 \<le> f x) \<Longrightarrow> real (length xs) \<le> sum_list (map f xs)"
  by (induction xs) (simp_all add: add_mono)

lemma sumExp_ge: "15 \<le> calc_sumExpScores input"
  using sum_list_ge_length [of INGREDIENTS "spec_weight input"] spec_weight_ge_1
  by (simp add: sumExpScores_eq length_INGREDIENTS)

lemma sumExp_pos: "0 < calc_sumExpScores input"
  using sumExp_ge [of input] by simp

lemma elem_le_sum_list_real:
  "(\<And>y. y \<in> set xs \<Longrightarrow> 0 \<le> y) \<Longrightarrow> x \<in> set xs \<Longrightarrow> (x::real) \<le> sum_list xs"
proof (induction xs)
  case Nil
  then show ?case by simp
next
  case (Cons a xs)
  have nn: "0 \<le> sum_list xs"
    by (rule sum_list_nonneg) (simp add: Cons.prems(1))
  show ?case
  proof (cases "x = a")
    case True
    with nn show ?thesis by simp
  next
    case False
    with Cons.prems have "x \<in> set xs" by simp
    then have "x \<le> sum_list xs" using Cons.IH Cons.prems(1) by simp
    moreover have "0 \<le> a" using Cons.prems(1) by simp
    ultimately show ?thesis by simp
  qed
qed

lemma weight_le_sumExp:
  "c \<in> set INGREDIENTS \<Longrightarrow> spec_weight input c \<le> calc_sumExpScores input"
  unfolding sumExpScores_eq
  by (rule elem_le_sum_list_real) (auto simp: spec_weight_def)

subsection \<open>The sort\<close>

lemma insert_cmp_insort:
  "insert_cmp (\<lambda>a b. pour_ml b - pour_ml a) x ys = insort_key (\<lambda>p. - pour_ml p) x ys"
  by (induction ys) simp_all

lemma sort_cmp_sort_key:
  "sort_cmp (\<lambda>a b. pour_ml b - pour_ml a) xs = sort_key (\<lambda>p. - pour_ml p) xs"
  by (induction xs) (simp_all add: sort_cmp_def insert_cmp_insort)

lemma recipe_sort_key:
  "calc_recipe input
     = sort_key (\<lambda>p. - pour_ml p) (filter (\<lambda>p. 1 \<le> pour_ml p) (calc_allocated input))"
  by (simp add: calc_recipe_def sort_cmp_sort_key)

lemma sorted_map_const: "sorted (map (\<lambda>x. (c::real)) xs)"
  by (induction xs) simp_all

subsection \<open>Rounding to one decimal\<close>

lemma tenths_mono: "x \<le> y \<Longrightarrow> tenths x \<le> tenths y"
  unfolding tenths_def by (intro nat_mono floor_mono) simp

lemma fixed1_value_mono: "x \<le> y \<Longrightarrow> fixed1_value x \<le> fixed1_value y"
  using tenths_mono [of "\<bar>y\<bar>" "\<bar>x\<bar>"] tenths_mono [of "\<bar>x\<bar>" "\<bar>y\<bar>"]
  by (auto simp: fixed1_value_def divide_le_cancel intro: order_trans [of _ 0])

lemma tenths_close:
  assumes "0 \<le> y"
  shows "\<bar>real (tenths y) / 10 - y\<bar> \<le> 1 / 20"
proof -
  define f :: real where "f = of_int \<lfloor>y * 10 + 1 / 2\<rfloor>"
  have "0 \<le> \<lfloor>y * 10 + 1 / 2\<rfloor>"
    using assms by simp
  then have n: "real (tenths y) = f"
    by (simp add: tenths_def f_def)
  have "f \<le> y * 10 + 1 / 2" "y * 10 + 1 / 2 < f + 1"
    unfolding f_def by linarith+
  then have "f / 10 - y \<le> 1 / 20" "- (f / 10 - y) \<le> 1 / 20"
    by simp_all
  then show ?thesis
    unfolding n by (simp only: abs_le_iff)
qed

lemma fixed1_value_close: "\<bar>fixed1_value x - x\<bar> \<le> 1 / 20"
  using tenths_close [of "\<bar>x\<bar>"] by (auto simp: fixed1_value_def abs_if split: if_splits)

lemma toFixed1_4: "toFixed1 4 = ''4.0''"
  by (simp add: toFixed1_def tenths_def digits.simps digit_char_def)

lemma toFixed1_60: "toFixed1 60 = ''60.0''"
  by (simp add: toFixed1_def tenths_def digits.simps digit_char_def)

subsection \<open>The all-zero input\<close>

lemma weight_zero:
  "spec_weight \<lparr>in_s = 0, in_a = 0, in_b = 0, in_i = 0, in_t = 0\<rparr> = (\<lambda>c. 1)"
  by (rule ext) (simp add: spec_weight_def spec_dot_def)

lemma sum_list_map_const_one: "(\<Sum>x\<leftarrow>xs. (1::real)) = real (length xs)"
  by (induction xs) simp_all

lemma sumExp_zero:
  "calc_sumExpScores \<lparr>in_s = 0, in_a = 0, in_b = 0, in_i = 0, in_t = 0\<rparr> = 15"
  by (simp only: sumExpScores_eq weight_zero sum_list_map_const_one length_INGREDIENTS)

lemma allocated_zero:
  "calc_allocated \<lparr>in_s = 0, in_a = 0, in_b = 0, in_i = 0, in_t = 0\<rparr>
     = map (\<lambda>c. \<lparr>pour_name = ing_name c, pour_ml = 4\<rparr>) INGREDIENTS"
  by (simp add: allocated_eq sumExp_zero weight_zero calc_totalVolume_def)

lemma recipe_zero:
  "calc_recipe \<lparr>in_s = 0, in_a = 0, in_b = 0, in_i = 0, in_t = 0\<rparr>
     = map (\<lambda>c. \<lparr>pour_name = ing_name c, pour_ml = 4\<rparr>) INGREDIENTS"
proof -
  let ?xs = "map (\<lambda>c. \<lparr>pour_name = ing_name c, pour_ml = 4\<rparr>) INGREDIENTS"
  have "filter (\<lambda>p. 1 \<le> pour_ml p) ?xs = ?xs"
    by (simp add: filter_map comp_def)
  moreover have "sort_key (\<lambda>p. - pour_ml p) ?xs = ?xs"
    by (rule sort_key_id_if_sorted) (simp add: comp_def sorted_map_const)
  ultimately show ?thesis
    by (simp only: recipe_sort_key allocated_zero)
qed

subsection \<open>The input with full Sweetness and nothing else\<close>

lemma exp_12_ge: "(4096::real) \<le> exp 12"
proof -
  have "(2::real) \<le> exp 1"
    using exp_ge_add_one_self [of "1::real"] by simp
  then have "(2::real) ^ 12 \<le> exp 1 ^ 12"
    by (rule power_mono) simp
  also have "\<dots> = exp (of_nat 12 * (1::real))"
    by (rule exp_of_nat_mult [symmetric])
  finally show ?thesis by simp
qed

lemma sumExp_sweet:
  "4096 \<le> calc_sumExpScores \<lparr>in_s = 1, in_a = 0, in_b = 0, in_i = 0, in_t = 0\<rparr>"
proof -
  let ?i = "\<lparr>in_s = 1, in_a = 0, in_b = 0, in_i = 0, in_t = 0\<rparr>"
  let ?c = "\<lparr>ing_name = ''Simple syrup'', ing_s = 1.00, ing_a = 0.00, ing_b = 0.00,
             ing_i = 0.00, ing_t = 0.10\<rparr>"
  have "?c \<in> set INGREDIENTS"
    by (simp add: INGREDIENTS_def)
  then have "spec_weight ?i ?c \<le> calc_sumExpScores ?i"
    by (rule weight_le_sumExp)
  moreover have "spec_weight ?i ?c = exp 12"
    by (simp add: spec_weight_def spec_dot_def)
  ultimately show ?thesis
    using exp_12_ge by simp
qed

lemma vodka_sweet:
  "calc_allocated \<lparr>in_s = 1, in_a = 0, in_b = 0, in_i = 0, in_t = 0\<rparr> ! 1
     = \<lparr>pour_name = ''Vodka'',
        pour_ml = 60 / calc_sumExpScores \<lparr>in_s = 1, in_a = 0, in_b = 0, in_i = 0, in_t = 0\<rparr>\<rparr>"
  by (simp add: allocated_eq length_INGREDIENTS)
    (simp add: INGREDIENTS_def spec_weight_def spec_dot_def calc_totalVolume_def)

lemma clamp_id: "0 \<le> x \<Longrightarrow> x \<le> 1 \<Longrightarrow> spec_clamp01 x = x"
  by (simp add: spec_clamp01_def)

section \<open>The claims\<close>

text \<open>
  C1. For every input vector (in particular every one with its five components in
  \<open>[0,1]\<close>), the amounts allocated before filtering are, entry by entry of the catalog,
  \<open>exp(max(0, dot(input, c)) * 12.0) / sum_j exp(max(0, dot(input, c_j)) * 12.0) * volume\<close>:
  the softmax with temperature 12.0 of the zero-floored dot products, times the computed
  total volume.
\<close>

theorem allocation_is_softmax_times_volume:
  "calc_allocated input =
     map (\<lambda>c. \<lparr>pour_name = ing_name c,
               pour_ml = exp (max 0 (spec_dot input c) * 12.0)
                  / (\<Sum>c'\<leftarrow>INGREDIENTS. exp (max 0 (spec_dot input c') * 12.0))
                  * calc_totalVolume input\<rparr>)
       INGREDIENTS"
proof -
  have w: "spec_weight input = (\<lambda>c. exp (max 0 (spec_dot input c) * 12.0))"
    by (rule ext) (simp add: spec_weight_def)
  show ?thesis
    unfolding allocated_eq sumExpScores_eq w ..
qed

text \<open>
  C2. The total volume is \<open>60 + 90 * T\<close> for the input's Texture \<open>T\<close>, and the returned
  field is this number printed with one decimal (so within 0.05 of it): \<open>T = 0\<close> gives
  60.0 and \<open>T = 1\<close> gives 150.0. Changing the other four components does not change it.
\<close>

theorem totalVolume_affine_in_texture:
  "calc_totalVolume input = 60 + 90 * in_t input
   \<and> totalVolume (calculateDynamicRecipe input) = toFixed1 (60 + 90 * in_t input)
   \<and> \<bar>fixed1_value (calc_totalVolume input) - (60 + 90 * in_t input)\<bar> \<le> 1 / 20
   \<and> totalVolume (calculateDynamicRecipe (input\<lparr>in_t := 0\<rparr>)) = ''60.0''
   \<and> totalVolume (calculateDynamicRecipe (input\<lparr>in_t := 1\<rparr>)) = ''150.0''
   \<and> totalVolume (calculateDynamicRecipe (input\<lparr>in_s := s', in_a := a', in_b := b', in_i := i'\<rparr>))
       = totalVolume (calculateDynamicRecipe input)"
proof -
  have "\<bar>fixed1_value (calc_totalVolume input) - (60 + 90 * in_t input)\<bar> \<le> 1 / 20"
    using fixed1_value_close [of "calc_totalVolume input"] by (simp add: calc_totalVolume_def)
  then show ?thesis
    by (simp add: calculateDynamicRecipe_def calc_totalVolume_def toFixed1_def tenths_def
        digits.simps digit_char_def)
qed

text \<open>
  C3, as stated: the result on any input equals the result on the component-wise clamped
  input, and the total volume always lies in \<open>[60,150]\<close>. This fails: the function has no
  clamping, and Texture 2 gives the volume 240.0, where the clamped input gives 150.0.
\<close>

theorem no_clamping_counterexample:
  "calculateDynamicRecipe \<lparr>in_s = 0, in_a = 0, in_b = 0, in_i = 0, in_t = 2\<rparr>
     \<noteq> calculateDynamicRecipe (spec_clampInput \<lparr>in_s = 0, in_a = 0, in_b = 0, in_i = 0, in_t = 2\<rparr>)
   \<and> totalVolume (calculateDynamicRecipe \<lparr>in_s = 0, in_a = 0, in_b = 0, in_i = 0, in_t = 2\<rparr>)
       = ''240.0''
   \<and> \<not> calc_totalVolume \<lparr>in_s = 0, in_a = 0, in_b = 0, in_i = 0, in_t = 2\<rparr> \<le> 150"
proof -
  let ?i = "\<lparr>in_s = 0, in_a = 0, in_b = 0, in_i = 0, in_t = 2\<rparr>"
  have a: "totalVolume (calculateDynamicRecipe ?i) = ''240.0''"
    by (simp add: calculateDynamicRecipe_def calc_totalVolume_def toFixed1_def tenths_def
        digits.simps digit_char_def)
  have b: "totalVolume (calculateDynamicRecipe (spec_clampInput ?i)) = ''150.0''"
    by (simp add: calculateDynamicRecipe_def calc_totalVolume_def toFixed1_def tenths_def
        digits.simps digit_char_def spec_clampInput_def spec_clamp01_def)
  have "calculateDynamicRecipe ?i \<noteq> calculateDynamicRecipe (spec_clampInput ?i)"
  proof
    assume "calculateDynamicRecipe ?i = calculateDynamicRecipe (spec_clampInput ?i)"
    then have "totalVolume (calculateDynamicRecipe ?i)
        = totalVolume (calculateDynamicRecipe (spec_clampInput ?i))"
      by simp
    with a b show False by simp
  qed
  with a show ?thesis by (simp add: calc_totalVolume_def)
qed

text \<open>
  C3, amended: for every input whose five components lie in \<open>[0,1]\<close>, clamping leaves
  the input as it is, so the result equals the result on the clamped input, and the total
  volume, computed and as returned with one decimal, lies in \<open>[60,150]\<close>.
\<close>

theorem in_range_input_volume_bounds:
  assumes "0 \<le> in_s input" "in_s input \<le> 1" "0 \<le> in_a input" "in_a input \<le> 1"
    "0 \<le> in_b input" "in_b input \<le> 1" "0 \<le> in_i input" "in_i input \<le> 1"
    "0 \<le> in_t input" "in_t input \<le> 1"
  shows "calculateDynamicRecipe (spec_clampInput input) = calculateDynamicRecipe input
    \<and> 60 \<le> calc_totalVolume input \<and> calc_totalVolume input \<le> 150
    \<and> totalVolume (calculateDynamicRecipe input) = toFixed1 (calc_totalVolume input)
    \<and> 60 \<le> fixed1_value (calc_totalVolume input)
    \<and> fixed1_value (calc_totalVolume input) \<le> 150"
proof -
  have "spec_clampInput input = input"
    using assms by (simp add: spec_clampInput_def clamp_id)
  moreover have v: "60 \<le> calc_totalVolume input" "calc_totalVolume input \<le> 150"
    using assms by (simp_all add: calc_totalVolume_def)
  moreover have "fixed1_value 60 = 60" "fixed1_value 150 = 150"
    by (simp_all add: fixed1_value_def tenths_def)
  then have "60 \<le> fixed1_value (calc_totalVolume input)"
    "fixed1_value (calc_totalVolume input) \<le> 150"
    using fixed1_value_mono [OF v(1)] fixed1_value_mono [OF v(2)] by simp_all
  ultimately show ?thesis by (simp add: calculateDynamicRecipe_def)
qed

theorem in_range_input_volume_bounds_witness:
  "calculateDynamicRecipe (spec_clampInput \<lparr>in_s = 1, in_a = 0, in_b = 1/4, in_i = 0, in_t = 1/2\<rparr>)
     = calculateDynamicRecipe \<lparr>in_s = 1, in_a = 0, in_b = 1/4, in_i = 0, in_t = 1/2\<rparr>
   \<and> calc_totalVolume \<lparr>in_s = 1, in_a = 0, in_b = 1/4, in_i = 0, in_t = 1/2\<rparr> = 105
   \<and> totalVolume (calculateDynamicRecipe \<lparr>in_s = 1, in_a = 0, in_b = 1/4, in_i = 0, in_t = 1/2\<rparr>)
       = ''105.0''
   \<and> fixed1_value (calc_totalVolume \<lparr>in_s = 1, in_a = 0, in_b = 1/4, in_i = 0, in_t = 1/2\<rparr>) = 105"
  using in_range_input_volume_bounds [of "\<lparr>in_s = 1, in_a = 0, in_b = 1/4, in_i = 0, in_t = 1/2\<rparr>"]
  by (simp add: calc_totalVolume_def toFixed1_def tenths_def digits.simps digit_char_def
      fixed1_value_def)

text \<open>
  C4, as stated: every axis has a catalog entry whose component is exactly 1.0. This fails
  on the Intensity axis, whose reference (50 percent alcohol by volume) no entry reaches.
\<close>

theorem no_intensity_one_counterexample: "(1::real) \<notin> set (map ing_i INGREDIENTS)"
  by (simp add: INGREDIENTS_def)

text \<open>
  C4, amended: the catalog has exactly 15 entries, every component of every entry lies in
  \<open>[0,1]\<close>, each of the axes S, A, B and T has an entry whose component is exactly 1.0,
  and the largest Intensity component is 0.95.
\<close>

theorem catalog_invariants:
  "length INGREDIENTS = 15
   \<and> list_all (\<lambda>c. 0 \<le> ing_s c \<and> ing_s c \<le> 1 \<and> 0 \<le> ing_a c \<and> ing_a c \<le> 1
         \<and> 0 \<le> ing_b c \<and> ing_b c \<le> 1 \<and> 0 \<le> ing_i c \<and> ing_i c \<le> 1
         \<and> 0 \<le> ing_t c \<and> ing_t c \<le> 1) INGREDIENTS
   \<and> 1 \<in> set (map ing_s INGREDIENTS) \<and> 1 \<in> set (map ing_a INGREDIENTS)
   \<and> 1 \<in> set (map ing_b INGREDIENTS) \<and> 1 \<in> set (map ing_t INGREDIENTS)
   \<and> Max (set (map ing_i INGREDIENTS)) = 0.95"
  by (simp add: INGREDIENTS_def)

text \<open>
  C5. The returned list is the formatted \<open>calc_recipe\<close>, whose entries are exactly the
  allocations of at least 1.0; so no ingredient allocated less than 1.0 is in the returned
  list. The entries are in descending order of amount, and for each amount \<open>v\<close> the entries
  with that amount stand in the order they have in the allocation list, which is the
  catalog's order.
\<close>

theorem recipe_filtered_sorted_stable:
  "recipe (calculateDynamicRecipe input)
     = map (\<lambda>r. \<lparr>name = pour_name r, ml = toFixed1 (pour_ml r)\<rparr>) (calc_recipe input)
   \<and> set (calc_recipe input) = {p \<in> set (calc_allocated input). 1 \<le> pour_ml p}
   \<and> (\<forall>p \<in> set (calc_allocated input).
         pour_ml p < 1 \<longrightarrow> pour_name p \<notin> set (map name (recipe (calculateDynamicRecipe input))))
   \<and> sorted_wrt (\<lambda>p q. pour_ml p \<ge> pour_ml q) (calc_recipe input)
   \<and> (\<forall>v. filter (\<lambda>p. pour_ml p = v) (calc_recipe input)
          = filter (\<lambda>p. pour_ml p = v \<and> 1 \<le> v) (calc_allocated input))
   \<and> map pour_name (calc_allocated input) = map ing_name INGREDIENTS"
proof -
  let ?A = "calc_allocated input" and ?R = "calc_recipe input"
  have r: "recipe (calculateDynamicRecipe input)
     = map (\<lambda>r. \<lparr>name = pour_name r, ml = toFixed1 (pour_ml r)\<rparr>) ?R"
    by (simp add: calculateDynamicRecipe_def)
  have s: "set ?R = {p \<in> set ?A. 1 \<le> pour_ml p}"
    by (simp add: recipe_sort_key)
  have inj: "inj_on pour_name (set ?A)"
    using distinct_names allocated_names [of input] by (metis distinct_map)
  have absent: "pour_name p \<notin> set (map name (recipe (calculateDynamicRecipe input)))"
    if p: "p \<in> set ?A" "pour_ml p < 1" for p
  proof
    assume "pour_name p \<in> set (map name (recipe (calculateDynamicRecipe input)))"
    then obtain q where q: "q \<in> set ?R" "pour_name q = pour_name p"
      by (auto simp: r)
    from q(1) s have "q \<in> set ?A" "1 \<le> pour_ml q" by auto
    with inj q(2) p(1) have "q = p" by (auto dest: inj_onD)
    with \<open>1 \<le> pour_ml q\<close> p(2) show False by simp
  qed
  have "sorted (map (\<lambda>p. - pour_ml p) ?R)"
    unfolding recipe_sort_key by (rule sorted_sort_key)
  then have srt: "sorted_wrt (\<lambda>p q. pour_ml p \<ge> pour_ml q) ?R"
    by (simp add: sorted_map)
  have st: "filter (\<lambda>p. pour_ml p = v) ?R = filter (\<lambda>p. pour_ml p = v \<and> 1 \<le> v) ?A" for v
  proof -
    have "filter (\<lambda>p. pour_ml p = v) ?R = filter (\<lambda>p. - pour_ml p = - v) ?R"
      by simp
    also have "\<dots> = filter (\<lambda>p. - pour_ml p = - v) (filter (\<lambda>p. 1 \<le> pour_ml p) ?A)"
      unfolding recipe_sort_key by (rule sort_key_stable)
    also have "\<dots> = filter (\<lambda>p. pour_ml p = v \<and> 1 \<le> v) ?A"
      by (auto intro: filter_cong)
    finally show ?thesis .
  qed
  from r s absent srt st allocated_names [of input] show ?thesis
    by blast
qed

text \<open>
  At the input with full Sweetness and nothing else, vodka (catalog position 1) scores 0
  against simple syrup's 1, is allocated less than 1.0 and is not in the returned list.
\<close>

theorem recipe_filtered_sorted_stable_witness:
  "calc_allocated \<lparr>in_s = 1, in_a = 0, in_b = 0, in_i = 0, in_t = 0\<rparr> ! 1
      \<in> set (calc_allocated \<lparr>in_s = 1, in_a = 0, in_b = 0, in_i = 0, in_t = 0\<rparr>)
   \<and> pour_name (calc_allocated \<lparr>in_s = 1, in_a = 0, in_b = 0, in_i = 0, in_t = 0\<rparr> ! 1) = ''Vodka''
   \<and> pour_ml (calc_allocated \<lparr>in_s = 1, in_a = 0, in_b = 0, in_i = 0, in_t = 0\<rparr> ! 1) < 1
   \<and> ''Vodka'' \<notin> set (map name (recipe (calculateDynamicRecipe
          \<lparr>in_s = 1, in_a = 0, in_b = 0, in_i = 0, in_t = 0\<rparr>)))"
proof -
  let ?i = "\<lparr>in_s = 1, in_a = 0, in_b = 0, in_i = 0, in_t = 0\<rparr>"
  have m: "calc_allocated ?i ! 1 \<in> set (calc_allocated ?i)"
    by (rule nth_mem) (simp add: allocated_eq length_INGREDIENTS)
  have n: "pour_name (calc_allocated ?i ! 1) = ''Vodka''"
    by (simp only: vodka_sweet Pour.select_convs)
  have "60 / calc_sumExpScores ?i < 1"
    using sumExp_sweet by (simp add: divide_less_eq)
  then have l: "pour_ml (calc_allocated ?i ! 1) < 1"
    by (simp only: vodka_sweet Pour.select_convs)
  from recipe_filtered_sorted_stable [of ?i] m l
  have "pour_name (calc_allocated ?i ! 1) \<notin> set (map name (recipe (calculateDynamicRecipe ?i)))"
    by blast
  with m n l show ?thesis by simp
qed

text \<open>
  C6. For the all-zero input the function returns the total volume 60.0 and all 15 catalog
  ingredients, each with 4.0, in the catalog's order.
\<close>

theorem all_zero_input_result:
  "calculateDynamicRecipe \<lparr>in_s = 0, in_a = 0, in_b = 0, in_i = 0, in_t = 0\<rparr>
     = \<lparr>totalVolume = ''60.0'',
        recipe = map (\<lambda>c. \<lparr>name = ing_name c, ml = ''4.0''\<rparr>) INGREDIENTS\<rparr>
   \<and> length (recipe (calculateDynamicRecipe \<lparr>in_s = 0, in_a = 0, in_b = 0, in_i = 0, in_t = 0\<rparr>))
       = 15"
  by (simp add: calculateDynamicRecipe_def recipe_zero comp_def toFixed1_4 toFixed1_60
      calc_totalVolume_def length_INGREDIENTS)

text \<open>
  C7. For every input, the amounts allocated before filtering and rounding add up to the
  total volume, exactly.
\<close>

theorem allocated_sum_is_totalVolume:
  "sum_list (map pour_ml (calc_allocated input)) = calc_totalVolume input"
proof -
  let ?S = "calc_sumExpScores input" and ?V = "calc_totalVolume input"
  have "sum_list (map pour_ml (calc_allocated input))
        = (\<Sum>c\<leftarrow>INGREDIENTS. spec_weight input c * (?V / ?S))"
    by (simp add: allocated_eq comp_def)
  also have "\<dots> = (\<Sum>c\<leftarrow>INGREDIENTS. spec_weight input c) * (?V / ?S)"
    by (rule sum_list_mult_const)
  also have "\<dots> = ?S * (?V / ?S)"
    by (simp only: sumExpScores_eq)
  also have "\<dots> = ?V"
    using sumExp_pos [of input] by simp
  finally show ?thesis .
qed

text \<open>
  C8. For two inputs that agree on S, A, B and I, a smaller or equal Texture gives a
  smaller or equal total volume, computed and as returned with one decimal.
\<close>

theorem totalVolume_mono_in_texture:
  assumes "in_s x = in_s y" "in_a x = in_a y" "in_b x = in_b y" "in_i x = in_i y"
    "in_t x \<le> in_t y"
  shows "calc_totalVolume x \<le> calc_totalVolume y
    \<and> totalVolume (calculateDynamicRecipe x) = toFixed1 (calc_totalVolume x)
    \<and> totalVolume (calculateDynamicRecipe y) = toFixed1 (calc_totalVolume y)
    \<and> fixed1_value (calc_totalVolume x) \<le> fixed1_value (calc_totalVolume y)"
proof -
  have "calc_totalVolume x \<le> calc_totalVolume y"
    using assms by (simp add: calc_totalVolume_def)
  then show ?thesis
    by (simp add: fixed1_value_mono calculateDynamicRecipe_def)
qed

theorem totalVolume_mono_in_texture_witness:
  "calc_totalVolume \<lparr>in_s = 1, in_a = 0, in_b = 1/4, in_i = 0, in_t = 0\<rparr>
     \<le> calc_totalVolume \<lparr>in_s = 1, in_a = 0, in_b = 1/4, in_i = 0, in_t = 1\<rparr>
   \<and> totalVolume (calculateDynamicRecipe \<lparr>in_s = 1, in_a = 0, in_b = 1/4, in_i = 0, in_t = 0\<rparr>)
       = ''60.0''
   \<and> totalVolume (calculateDynamicRecipe \<lparr>in_s = 1, in_a = 0, in_b = 1/4, in_i = 0, in_t = 1\<rparr>)
       = ''150.0''
   \<and> fixed1_value (calc_totalVolume \<lparr>in_s = 1, in_a = 0, in_b = 1/4, in_i = 0, in_t = 0\<rparr>)
      \<le> fixed1_value (calc_totalVolume \<lparr>in_s = 1, in_a = 0, in_b = 1/4, in_i = 0, in_t = 1\<rparr>)"
  using totalVolume_mono_in_texture [of "\<lparr>in_s = 1, in_a = 0, in_b = 1/4, in_i = 0, in_t = 0\<rparr>"
      "\<lparr>in_s = 1, in_a = 0, in_b = 1/4, in_i = 0, in_t = 1\<rparr>"]
  by (simp add: calc_totalVolume_def toFixed1_def tenths_def digits.simps digit_char_def)

text \<open>
  C9. \<open>vectorsToSABIT\<close> divides each of the five components by 100 and does nothing
  else: all zeros map to all zeros, and all 100 to all ones.
\<close>

theorem vectorsToSABIT_divides_by_100:
  "vectorsToSABIT d
     = \<lparr>in_s = vec_S d / 100, in_a = vec_A d / 100, in_b = vec_B d / 100,
        in_i = vec_I d / 100, in_t = vec_T d / 100\<rparr>
   \<and> vectorsToSABIT \<lparr>vec_S = 0, vec_A = 0, vec_B = 0, vec_I = 0, vec_T = 0\<rparr>
       = \<lparr>in_s = 0, in_a = 0, in_b = 0, in_i = 0, in_t = 0\<rparr>
   \<and> vectorsToSABIT \<lparr>vec_S = 100, vec_A = 100, vec_B = 100, vec_I = 100, vec_T = 100\<rparr>
       = \<lparr>in_s = 1, in_a = 1, in_b = 1, in_i = 1, in_t = 1\<rparr>"
  by (simp add: vectorsToSABIT_def)

text \<open>
  C10. For every input, the softmax denominator is the sum of the exponentials of the
  scores times 12.0; every score is at least 0, every exponential at least 1, and the
  denominator at least 15, so it is never zero.
\<close>

theorem sumExpScores_at_least_15:
  "calc_sumExpScores input = sum_list (calc_expScores input)
   \<and> calc_expScores input = map (\<lambda>s. exp (score s * 12.0)) (calc_scores input)
   \<and> length (calc_expScores input) = 15
   \<and> list_all (\<lambda>s. 0 \<le> score s) (calc_scores input)
   \<and> list_all (\<lambda>e. 1 \<le> e) (calc_expScores input)
   \<and> 15 \<le> calc_sumExpScores input
   \<and> calc_sumExpScores input \<noteq> 0"
proof -
  have "calc_expScores input = map (\<lambda>s. exp (score s * 12.0)) (calc_scores input)"
    by (simp add: calc_expScores_def sigma_def)
  moreover have "length (calc_expScores input) = 15"
    by (simp add: expScores_eq length_INGREDIENTS)
  moreover have "list_all (\<lambda>s. 0 \<le> score s) (calc_scores input)"
    by (simp add: scores_eq list_all_iff)
  moreover have "list_all (\<lambda>e. 1 \<le> e) (calc_expScores input)"
    by (simp add: expScores_eq list_all_iff spec_weight_ge_1)
  ultimately show ?thesis
    using sumExp_ge [of input]
    by (simp add: calc_sumExpScores_def foldl_plus_sum_list)
qed

end
